theory Spec2Isabelle
  imports Main
begin

section \<open>SnowState.js: the state machine of src/stateMachine.ts\<close>

text \<open>
  The class \<open>SnowState\<close> is embedded as a record of its fields and one HOL function per
  method. Conventions of the embedding:
  \<^item> A method takes the instance and returns the instance as the call leaves it, together
    with \<open>None\<close> when the call returned and \<open>Some e\<close> when it threw \<open>e\<close>. A throw
    therefore keeps whatever the method had already written.
  \<^item> User callbacks are JavaScript functions of the caller. They act on a caller-owned
    world \<open>'w\<close>, take one optional argument (\<open>None\<close> is \<open>undefined\<close>, also for a call
    with no argument), return normally and do not call back into the machine.
    A guard returns its verdict and the world it leaves.
  \<^item> \<open>Date.now()\<close> is the argument \<open>now\<close> of the methods that read the clock.
  \<^item> JavaScript numbers are restricted to integers (\<open>int\<close>).
  \<^item> State objects are plain objects: the association list of their own properties,
    in \<open>Object.keys\<close> order, above \<open>Object.prototype\<close>.
\<close>

subsection \<open>Errors\<close>

text \<open>
  The source throws one class, \<open>SnowStateError\<close>, with a message; the message templates
  are the constructors of \<open>message\<close>. \<open>TypeError\<close> is JavaScript's own error for a
  property read on \<open>undefined\<close>. \<open>OutsideFragment\<close> marks the two JavaScript paths this
  embedding does not follow: an assignment to the key \<open>__proto__\<close> of a plain object
  (it replaces the prototype) and a property read on a built-in object inherited from
  \<open>Object.prototype\<close>.
\<close>

datatype message =
    StateDoesNotExist string              \<comment> \<open>State 'X' does not exist\<close>
  | SourceStateDoesNotExist string        \<comment> \<open>Source state 'X' does not exist\<close>
  | DestinationStateDoesNotExist string   \<comment> \<open>Destination state 'X' does not exist\<close>
  | CannotUseExistingName "string list"   \<comment> \<open>Cannot use existing method/property name: a, b\<close>
  | HistorySizeAtLeastOne                 \<comment> \<open>History size must be at least 1\<close>
  | TimeCannotBeNegative                  \<comment> \<open>Time cannot be negative\<close>

datatype error = SnowStateError message | TypeError | OutsideFragment

subsection \<open>Plain objects and the prototype chain\<close>

text \<open>
  \<open>this.stateObjects\<close> and \<open>this.defaultEventMethods\<close> are created as \<open>{}\<close>, so
  the operator \<open>in\<close> and a property read see the properties of \<open>Object.prototype\<close>
  as well as the object's own.
\<close>

definition object_prototype_keys :: "string list" where
  "object_prototype_keys =
     [''constructor'', ''__defineGetter__'', ''__defineSetter__'', ''hasOwnProperty'',
      ''__lookupGetter__'', ''__lookupSetter__'', ''isPrototypeOf'',
      ''propertyIsEnumerable'', ''toString'', ''valueOf'', ''__proto__'',
      ''toLocaleString'']"

datatype 'v js_value = Undefined | Own 'v | Inherited

definition get_prop :: "(string \<rightharpoonup> 'v) \<Rightarrow> string \<Rightarrow> 'v js_value" where
  "get_prop obj key =
     (case obj key of
        Some v \<Rightarrow> Own v
      | None \<Rightarrow> if key \<in> set object_prototype_keys then Inherited else Undefined)"

definition has_prop :: "(string \<rightharpoonup> 'v) \<Rightarrow> string \<Rightarrow> bool" where
  "has_prop obj key =
     (case get_prop obj key of Undefined \<Rightarrow> False | Own v \<Rightarrow> True | Inherited \<Rightarrow> True)"

subsection \<open>Data\<close>

type_synonym ('d, 'w) js_function = "'d option \<Rightarrow> 'w \<Rightarrow> 'w"

type_synonym 'w TransitionCondition = "'w \<Rightarrow> bool \<times> 'w"

type_synonym ('d, 'w) StateObject = "(string \<times> ('d, 'w) js_function) list"

record ('d, 'w) TransitionRecord =
  destState :: string
  condition :: "'w TransitionCondition option"
  leaveFunc :: "('d, 'w) js_function option"
  enterFunc :: "('d, 'w) js_function option"

text \<open>
  The fields of the class, under their names. \<open>ownMethods\<close> is not a field of the source:
  it holds the names of the properties that \<open>addMethodToStateMachine\<close> creates on the
  instance with \<open>(this as any)[eventName] = ...\<close>.
\<close>

record ('d, 'w) SnowState =
  state :: string
  defaultEventMethods :: "string \<rightharpoonup> ('d, 'w) js_function"
  stateObjects :: "string \<rightharpoonup> ('d, 'w) StateObject"
  previousState :: "string option"
  stateHistory :: "string list"
  isHistoryEnabled :: bool
  maxHistorySize :: int
  stateStartTime :: int
  addedEvents :: "string set"
  stateTransitions :: "string \<rightharpoonup> (string \<rightharpoonup> ('d, 'w) TransitionRecord list)"
  wildcardTransitions :: "string \<rightharpoonup> ('d, 'w) TransitionRecord list"
  ownMethods :: "string set"

definition SNOWSTATE_WILDCARD_TRANSITION_NAME :: string where
  "SNOWSTATE_WILDCARD_TRANSITION_NAME = ''*''"

definition SNOWSTATE_REFLEXIVE_TRANSITION_NAME :: string where
  "SNOWSTATE_REFLEXIVE_TRANSITION_NAME = ''=''"

definition createSnowState :: "int \<Rightarrow> string \<Rightarrow> ('d, 'w) SnowState" where
  "createSnowState now initialState =
     \<lparr> state = initialState,
       defaultEventMethods = Map.empty,
       stateObjects = Map.empty,
       previousState = None,
       stateHistory = [],
       isHistoryEnabled = False,
       maxHistorySize = 10,
       stateStartTime = now,
       addedEvents = {''enter'', ''leave''},
       stateTransitions = Map.empty,
       wildcardTransitions = Map.empty,
       ownMethods = {} \<rparr>"

subsection \<open>State runtime\<close>

text \<open>
  The leave phase of \<open>change\<close>: \<open>leaveFunc(data)\<close> when an override is given, else
  \<open>currentStateObject.leave?.()\<close>, which reads a property of \<open>undefined\<close> when the
  current state has no entry in \<open>stateObjects\<close>. A built-in inherited from
  \<open>Object.prototype\<close> has no property \<open>leave\<close> or \<open>enter\<close>.
\<close>

definition invoke_default ::
  "('d, 'w) StateObject js_value \<Rightarrow> string \<Rightarrow> 'w \<Rightarrow> error + 'w" where
  "invoke_default stateObject name w =
     (case stateObject of
        Undefined \<Rightarrow> Inl TypeError
      | Inherited \<Rightarrow> Inr w
      | Own obj \<Rightarrow> (case map_of obj name of None \<Rightarrow> Inr w | Some f \<Rightarrow> Inr (f None w)))"

definition invoke_phase ::
  "('d, 'w) js_function option \<Rightarrow> 'd option \<Rightarrow> ('d, 'w) StateObject js_value \<Rightarrow> string
     \<Rightarrow> 'w \<Rightarrow> error + 'w" where
  "invoke_phase override data stateObject name w =
     (case override of
        Some f \<Rightarrow> Inr (f data w)
      | None \<Rightarrow> invoke_default stateObject name w)"

definition push_history :: "('d, 'w) SnowState \<Rightarrow> ('d, 'w) SnowState" where
  "push_history m =
     (if isHistoryEnabled m then
        (let pushed = stateHistory m @ [state m]
         in m\<lparr>stateHistory :=
              (if int (length pushed) > maxHistorySize m then tl pushed else pushed)\<rparr>)
      else m)"

definition change ::
  "int \<Rightarrow> ('d, 'w) SnowState \<Rightarrow> 'w \<Rightarrow> string \<Rightarrow> ('d, 'w) js_function option
     \<Rightarrow> ('d, 'w) js_function option \<Rightarrow> 'd option
     \<Rightarrow> error option \<times> ('d, 'w) SnowState \<times> 'w" where
  "change now m w stateName leaveF enterF data =
     (if \<not> has_prop (stateObjects m) stateName then
        (Some (SnowStateError (StateDoesNotExist stateName)), m, w)
      else
        (case invoke_phase leaveF data (get_prop (stateObjects m) (state m)) ''leave'' w of
           Inl e \<Rightarrow> (Some e, m, w)
         | Inr w1 \<Rightarrow>
             (let m1 = push_history (m\<lparr>previousState := Some (state m)\<rparr>);
                  m2 = m1\<lparr>state := stateName, stateStartTime := now\<rparr>
              in (case invoke_phase enterF data (get_prop (stateObjects m2) stateName)
                         ''enter'' w1 of
                    Inl e \<Rightarrow> (Some e, m2, w1)
                  | Inr w2 \<Rightarrow> (None, m2, w2)))))"

text \<open>
  The implementation of \<open>stateIs\<close> declares one parameter; the interface declares a
  second, optional one. A JavaScript call drops the arguments a function does not
  declare, which is what \<open>stateIs_call\<close> does with \<open>stateToCheck\<close>.
\<close>

definition stateIs :: "('d, 'w) SnowState \<Rightarrow> string \<Rightarrow> bool" where
  "stateIs m stateName = (stateName = state m)"

definition stateIs_call :: "('d, 'w) SnowState \<Rightarrow> string \<Rightarrow> string option \<Rightarrow> bool" where
  "stateIs_call m stateName stateToCheck = stateIs m stateName"

definition stateExists :: "('d, 'w) SnowState \<Rightarrow> string \<Rightarrow> bool" where
  "stateExists m stateName = has_prop (stateObjects m) stateName"

definition getCurrentState :: "('d, 'w) SnowState \<Rightarrow> string" where
  "getCurrentState m = state m"

definition getPreviousState :: "('d, 'w) SnowState \<Rightarrow> string option" where
  "getPreviousState m = previousState m"

subsection \<open>History\<close>

definition historyEnable :: "('d, 'w) SnowState \<Rightarrow> ('d, 'w) SnowState" where
  "historyEnable m = m\<lparr>isHistoryEnabled := True\<rparr>"

definition historyDisable :: "('d, 'w) SnowState \<Rightarrow> ('d, 'w) SnowState" where
  "historyDisable m = m\<lparr>isHistoryEnabled := False\<rparr>"

text \<open>\<open>xs.slice(-n)\<close>: the copy starts at \<open>max (length xs - n) 0\<close>.\<close>

definition slice_from_end :: "'a list \<Rightarrow> int \<Rightarrow> 'a list" where
  "slice_from_end xs n = drop (nat (int (length xs) - n)) xs"

definition historySetMaxSize ::
  "('d, 'w) SnowState \<Rightarrow> int \<Rightarrow> error option \<times> ('d, 'w) SnowState" where
  "historySetMaxSize m size' =
     (if size' < 1 then (Some (SnowStateError HistorySizeAtLeastOne), m)
      else
        (let m1 = m\<lparr>maxHistorySize := size'\<rparr>
         in (None,
             if int (length (stateHistory m1)) > size'
             then m1\<lparr>stateHistory := slice_from_end (stateHistory m1) size'\<rparr>
             else m1)))"

definition historyGetMaxSize :: "('d, 'w) SnowState \<Rightarrow> int" where
  "historyGetMaxSize m = maxHistorySize m"

definition historyGet :: "('d, 'w) SnowState \<Rightarrow> string list" where
  "historyGet m = stateHistory m"

subsection \<open>State registration\<close>

text \<open>
  The own properties of an instance after construction are the class fields (the
  methods live on the prototype), then the properties \<open>addMethodToStateMachine\<close> adds.
\<close>

definition instance_fields :: "string list" where
  "instance_fields =
     [''state'', ''defaultEventMethods'', ''stateObjects'', ''previousState'',
      ''stateHistory'', ''isHistoryEnabled'', ''maxHistorySize'', ''stateStartTime'',
      ''addedEvents'', ''stateTransitions'', ''wildcardTransitions'', ''emptyLeaveMethod'']"

definition prototype_methods :: "string list" where
  "prototype_methods =
     [''constructor'', ''checkForIllegalKeys'', ''addMethodToStateMachine'',
      ''eventSetDefaultMethod'', ''add'', ''change'', ''stateIs'', ''stateExists'',
      ''getStates'', ''getCurrentState'', ''getPreviousState'', ''historyEnable'',
      ''historyDisable'', ''historyIsEnabled'', ''historySetMaxSize'', ''historyGetMaxSize'',
      ''historyGet'', ''getTime'', ''setTime'', ''enter'', ''leave'', ''eventExists'',
      ''eventGetCurrentLeaveMethod'', ''addTransition'', ''trigger'',
      ''addWildcardTransition'', ''addReflexiveTransition'', ''transitionExists'']"

text \<open>\<open>Object.getOwnPropertyDescriptor(this, key)\<close> is defined.\<close>

definition has_own_property :: "('d, 'w) SnowState \<Rightarrow> string \<Rightarrow> bool" where
  "has_own_property m key = (key \<in> set instance_fields \<or> key \<in> ownMethods m)"

text \<open>The truthiness of a field's value: objects and functions are truthy.\<close>

definition field_truthy :: "('d, 'w) SnowState \<Rightarrow> string \<Rightarrow> bool" where
  "field_truthy m key =
     (if key = ''state'' then state m \<noteq> []
      else if key = ''previousState'' then
        (case previousState m of None \<Rightarrow> False | Some s \<Rightarrow> s \<noteq> [])
      else if key = ''isHistoryEnabled'' then isHistoryEnabled m
      else if key = ''maxHistorySize'' then maxHistorySize m \<noteq> 0
      else if key = ''stateStartTime'' then stateStartTime m \<noteq> 0
      else True)"

text \<open>
  The truthiness of \<open>this[key]\<close>: an own property first, then the class prototype,
  then \<open>Object.prototype\<close>.
\<close>

definition this_truthy :: "('d, 'w) SnowState \<Rightarrow> string \<Rightarrow> bool" where
  "this_truthy m key =
     (if key \<in> set instance_fields then field_truthy m key
      else (key \<in> ownMethods m \<or> key \<in> set prototype_methods
              \<or> key \<in> set object_prototype_keys))"

definition checkForIllegalKeys :: "('d, 'w) SnowState \<Rightarrow> string list \<Rightarrow> error option" where
  "checkForIllegalKeys m eventNames =
     (let illegalKeys =
            filter (\<lambda>key. has_own_property m key \<and> key \<notin> addedEvents m) eventNames
      in if length illegalKeys > 0
         then Some (SnowStateError (CannotUseExistingName illegalKeys))
         else None)"

definition addMethodToStateMachine ::
  "('d, 'w) SnowState \<Rightarrow> string \<Rightarrow> ('d, 'w) SnowState" where
  "addMethodToStateMachine m eventName =
     (if this_truthy m eventName then m
      else m\<lparr>addedEvents := insert eventName (addedEvents m),
             ownMethods := insert eventName (ownMethods m)\<rparr>)"

definition eventSetDefaultMethod ::
  "('d, 'w) SnowState \<Rightarrow> string \<Rightarrow> ('d, 'w) js_function
     \<Rightarrow> error option \<times> ('d, 'w) SnowState" where
  "eventSetDefaultMethod m eventName method =
     (case checkForIllegalKeys m [eventName] of
        Some e \<Rightarrow> (Some e, m)
      | None \<Rightarrow>
          if eventName = ''__proto__'' then (Some OutsideFragment, m)
          else (None,
                addMethodToStateMachine
                  (m\<lparr>defaultEventMethods := (defaultEventMethods m)(eventName \<mapsto> method)\<rparr>)
                  eventName))"

definition add ::
  "('d, 'w) SnowState \<Rightarrow> string \<Rightarrow> ('d, 'w) StateObject
     \<Rightarrow> error option \<times> ('d, 'w) SnowState" where
  "add m stateName stateObject =
     (case checkForIllegalKeys m (map fst stateObject) of
        Some e \<Rightarrow> (Some e, m)
      | None \<Rightarrow>
          if stateName = ''__proto__'' then (Some OutsideFragment, m)
          else (None,
                foldl (\<lambda>m' eventName.
                         if \<not> this_truthy m' eventName
                         then addMethodToStateMachine m' eventName else m')
                  (m\<lparr>stateObjects := (stateObjects m)(stateName \<mapsto> stateObject)\<rparr>)
                  (map fst stateObject)))"

text \<open>
  The function that \<open>addMethodToStateMachine\<close> stores at \<open>this[eventName]\<close>, called
  with no argument. It reads \<open>currentState[eventName]\<close> without testing
  \<open>currentState\<close>.
\<close>

definition dispatch :: "('d, 'w) SnowState \<Rightarrow> 'w \<Rightarrow> string \<Rightarrow> error option \<times> 'w" where
  "dispatch m w eventName =
     (case get_prop (stateObjects m) (state m) of
        Undefined \<Rightarrow> (Some TypeError, w)
      | Inherited \<Rightarrow> (Some OutsideFragment, w)
      | Own currentState \<Rightarrow>
          (case get_prop (map_of currentState) eventName of
             Own stateMethod \<Rightarrow> (None, stateMethod None w)
           | Inherited \<Rightarrow> (Some OutsideFragment, w)
           | Undefined \<Rightarrow>
               (case get_prop (defaultEventMethods m) eventName of
                  Own method \<Rightarrow> (None, method None w)
                | Inherited \<Rightarrow> (Some OutsideFragment, w)
                | Undefined \<Rightarrow> (None, w))))"

text \<open>
  The public methods \<open>enter(data)\<close> and \<open>leave(data)\<close>: the callback of the current
  state with \<open>data\<close>, else the default method of that name with no argument.
  \<open>invoke_current\<close> is their common body, for the names \<open>enter\<close> and \<open>leave\<close>, which
  \<open>Object.prototype\<close> does not have.
\<close>

definition invoke_current ::
  "('d, 'w) SnowState \<Rightarrow> 'w \<Rightarrow> string \<Rightarrow> 'd option \<Rightarrow> error option \<times> 'w" where
  "invoke_current m w name data =
     (case get_prop (stateObjects m) (state m) of
        Undefined \<Rightarrow> (Some TypeError, w)
      | currentState \<Rightarrow>
          (case (case currentState of Own obj \<Rightarrow> map_of obj name | _ \<Rightarrow> None) of
             Some f \<Rightarrow> (None, f data w)
           | None \<Rightarrow>
               (case defaultEventMethods m name of
                  Some method \<Rightarrow> (None, method None w)
                | None \<Rightarrow> (None, w))))"

definition enter :: "('d, 'w) SnowState \<Rightarrow> 'w \<Rightarrow> 'd option \<Rightarrow> error option \<times> 'w" where
  "enter m w data = invoke_current m w ''enter'' data"

definition leave :: "('d, 'w) SnowState \<Rightarrow> 'w \<Rightarrow> 'd option \<Rightarrow> error option \<times> 'w" where
  "leave m w data = invoke_current m w ''leave'' data"

subsection \<open>Transitions\<close>

text \<open>
  The argument \<open>sourceState\<close> of \<open>addTransition\<close> is a string or an array of strings;
  only the string \<open>*\<close> is the wildcard.
\<close>

datatype source = Name string | Names "string list"

fun check_states :: "('d, 'w) SnowState \<Rightarrow> string \<Rightarrow> string list \<Rightarrow> error option" where
  "check_states m dest [] = None"
| "check_states m dest (s # ss) =
     (if \<not> has_prop (stateObjects m) s
      then Some (SnowStateError (SourceStateDoesNotExist s))
      else if \<not> has_prop (stateObjects m) dest
           then Some (SnowStateError (DestinationStateDoesNotExist dest))
           else check_states m dest ss)"

definition push_record ::
  "(string \<rightharpoonup> 'r list) \<Rightarrow> string \<Rightarrow> 'r \<Rightarrow> (string \<rightharpoonup> 'r list)" where
  "push_record table transitionName r =
     table(transitionName \<mapsto>
             (case table transitionName of None \<Rightarrow> [] | Some rs \<Rightarrow> rs) @ [r])"

fun push_sources ::
  "('d, 'w) SnowState \<Rightarrow> string \<Rightarrow> ('d, 'w) TransitionRecord \<Rightarrow> string list
     \<Rightarrow> ('d, 'w) SnowState" where
  "push_sources m transitionName r [] = m"
| "push_sources m transitionName r (s # ss) =
     push_sources
       (m\<lparr>stateTransitions :=
            (stateTransitions m)
              (s \<mapsto> push_record
                     (case stateTransitions m s of None \<Rightarrow> Map.empty | Some t \<Rightarrow> t)
                     transitionName r)\<rparr>)
       transitionName r ss"

definition addTransition ::
  "('d, 'w) SnowState \<Rightarrow> string \<Rightarrow> source \<Rightarrow> string \<Rightarrow> 'w TransitionCondition option
     \<Rightarrow> ('d, 'w) js_function option \<Rightarrow> ('d, 'w) js_function option
     \<Rightarrow> error option \<times> ('d, 'w) SnowState" where
  "addTransition m transitionName sourceState dest cond leaveF enterF =
     (let r = \<lparr>destState = dest, condition = cond, leaveFunc = leaveF, enterFunc = enterF\<rparr>
      in if sourceState = Name SNOWSTATE_WILDCARD_TRANSITION_NAME then
           (None,
            m\<lparr>wildcardTransitions := push_record (wildcardTransitions m) transitionName r\<rparr>)
         else
           (let sourceStateArray = (case sourceState of Name s \<Rightarrow> [s] | Names ss \<Rightarrow> ss)
            in case check_states m dest sourceStateArray of
                 Some e \<Rightarrow> (Some e, m)
               | None \<Rightarrow> (None, push_sources m transitionName r sourceStateArray)))"

definition addWildcardTransition ::
  "('d, 'w) SnowState \<Rightarrow> string \<Rightarrow> string \<Rightarrow> 'w TransitionCondition option
     \<Rightarrow> ('d, 'w) js_function option \<Rightarrow> ('d, 'w) js_function option
     \<Rightarrow> error option \<times> ('d, 'w) SnowState" where
  "addWildcardTransition m transitionName dest cond leaveF enterF =
     addTransition m transitionName (Name SNOWSTATE_WILDCARD_TRANSITION_NAME) dest cond
       leaveF enterF"

text \<open>
  One \<open>for\<close> loop of \<open>trigger\<close>: the first record whose guard is absent or returns
  true makes \<open>trigger\<close> return the \<open>change\<close> to its destination (\<open>Inl\<close>); \<open>Inr\<close> is
  a loop that ran to its end, with the world the guards left. The instance is the same
  at every guard, since a guard does not write it.

  In \<open>trigger\<close>, a missing table or list for the current state skips the first loop, as
  the loop over the empty list does; \<open>stateTransitions\<close> and \<open>wildcardTransitions\<close> are
  \<open>Map\<close>s, whose \<open>get\<close> and \<open>has\<close> see no prototype.
\<close>

fun fire_first ::
  "int \<Rightarrow> ('d, 'w) SnowState \<Rightarrow> 'd option \<Rightarrow> ('d, 'w) TransitionRecord list \<Rightarrow> 'w
     \<Rightarrow> (error option \<times> ('d, 'w) SnowState \<times> 'w) + 'w" where
  "fire_first now m data [] w = Inr w"
| "fire_first now m data (transition # rest) w =
     (case (case condition transition of None \<Rightarrow> (True, w) | Some c \<Rightarrow> c w) of
        (pass, w1) \<Rightarrow>
          if pass then
            Inl (change now m w1
                   (if destState transition = SNOWSTATE_REFLEXIVE_TRANSITION_NAME
                    then state m else destState transition)
                   (leaveFunc transition) (enterFunc transition) data)
          else fire_first now m data rest w1)"

definition trigger ::
  "int \<Rightarrow> ('d, 'w) SnowState \<Rightarrow> 'w \<Rightarrow> string \<Rightarrow> 'd option
     \<Rightarrow> error option \<times> ('d, 'w) SnowState \<times> 'w" where
  "trigger now m w transitionName data =
     (case fire_first now m data
             (case stateTransitions m (state m) of
                None \<Rightarrow> []
              | Some transitions \<Rightarrow>
                  (case transitions transitionName of None \<Rightarrow> [] | Some ts \<Rightarrow> ts))
             w of
        Inl result \<Rightarrow> result
      | Inr w1 \<Rightarrow>
          (case wildcardTransitions m transitionName of
             None \<Rightarrow> (None, m, w1)
           | Some ts \<Rightarrow>
               (case fire_first now m data ts w1 of
                  Inl result \<Rightarrow> result
                | Inr w2 \<Rightarrow> (None, m, w2))))"

section \<open>Properties\<close>

subsection \<open>Vocabulary of the statements\<close>

text \<open>
  The records \<open>trigger\<close> looks at, in the order it looks at them, and what one guard
  and a list of rejecting guards do: \<open>guard_passes\<close> is the test
  \<open>!transition.condition || transition.condition()\<close>, \<open>guard_world\<close> the world that
  test leaves, \<open>fire\<close> the call of \<open>change\<close> for a record.
\<close>

definition specific_records ::
  "('d, 'w) SnowState \<Rightarrow> string \<Rightarrow> ('d, 'w) TransitionRecord list" where
  "specific_records m transitionName =
     (case stateTransitions m (state m) of
        None \<Rightarrow> []
      | Some transitions \<Rightarrow>
          (case transitions transitionName of None \<Rightarrow> [] | Some ts \<Rightarrow> ts))"

definition wildcard_records ::
  "('d, 'w) SnowState \<Rightarrow> string \<Rightarrow> ('d, 'w) TransitionRecord list" where
  "wildcard_records m transitionName =
     (case wildcardTransitions m transitionName of None \<Rightarrow> [] | Some ts \<Rightarrow> ts)"

definition guard_passes :: "('d, 'w) TransitionRecord \<Rightarrow> 'w \<Rightarrow> bool" where
  "guard_passes r w = (case condition r of None \<Rightarrow> True | Some c \<Rightarrow> fst (c w))"

definition guard_world :: "('d, 'w) TransitionRecord \<Rightarrow> 'w \<Rightarrow> 'w" where
  "guard_world r w = (case condition r of None \<Rightarrow> w | Some c \<Rightarrow> snd (c w))"

fun guards_world :: "('d, 'w) TransitionRecord list \<Rightarrow> 'w \<Rightarrow> 'w" where
  "guards_world [] w = w"
| "guards_world (r # rs) w = guards_world rs (guard_world r w)"

fun all_rejected :: "('d, 'w) TransitionRecord list \<Rightarrow> 'w \<Rightarrow> bool" where
  "all_rejected [] w = True"
| "all_rejected (r # rs) w =
     (if guard_passes r w then False else all_rejected rs (guard_world r w))"

definition fire ::
  "int \<Rightarrow> ('d, 'w) SnowState \<Rightarrow> 'd option \<Rightarrow> ('d, 'w) TransitionRecord \<Rightarrow> 'w
     \<Rightarrow> error option \<times> ('d, 'w) SnowState \<times> 'w" where
  "fire now m data r w =
     change now m w
       (if destState r = SNOWSTATE_REFLEXIVE_TRANSITION_NAME then state m else destState r)
       (leaveFunc r) (enterFunc r) data"

subsection \<open>Machines and callbacks of the examples\<close>

text \<open>A callback that appends its name and the argument it received to a log.\<close>

definition logger :: "string \<Rightarrow> (nat, (string \<times> nat option) list) js_function" where
  "logger name data w = w @ [(name, data)]"

text \<open>A guard that logs its call and answers \<open>verdict\<close>.\<close>

definition logging_guard ::
  "string \<Rightarrow> bool \<Rightarrow> (string \<times> nat option) list TransitionCondition" where
  "logging_guard name verdict w = (verdict, w @ [(name, None)])"

text \<open>
  \<open>createSnowState("idle").add("idle", {leave}).add("walk", {enter}).add("run", {enter})\<close>
\<close>

definition walker :: "(nat, (string \<times> nat option) list) SnowState" where
  "walker =
     snd (add (snd (add (snd (add (createSnowState 0 ''idle'')
       ''idle'' [(''leave'', logger ''idle.leave'')]))
       ''walk'' [(''enter'', logger ''walk.enter'')]))
       ''run'' [(''enter'', logger ''run.enter'')])"

text \<open>
  \<open>walker\<close> with two transitions named \<open>go\<close> declared for \<open>idle\<close> (to \<open>walk\<close>, then
  to \<open>run\<close>) and a wildcard transition named \<open>go\<close> (to \<open>run\<close>); the verdicts of the
  three guards are the parameters.
\<close>

definition walker_go ::
  "bool \<Rightarrow> bool \<Rightarrow> bool \<Rightarrow> (nat, (string \<times> nat option) list) SnowState" where
  "walker_go g1 g2 g3 =
     snd (addWildcardTransition
       (snd (addTransition
         (snd (addTransition walker ''go'' (Name ''idle'') ''walk''
                 (Some (logging_guard ''guard1'' g1)) None None))
         ''go'' (Names [''idle'']) ''run'' (Some (logging_guard ''guard2'' g2)) None None))
       ''go'' ''run'' (Some (logging_guard ''guard3'' g3)) None None)"

text \<open>
  \<open>createSnowState("A")\<close> with the states \<open>A\<close>, \<open>B\<close>, \<open>C\<close>, \<open>D\<close> (no callbacks)
  and \<open>historyEnable()\<close>.
\<close>

definition abcd :: "('d, 'w) SnowState" where
  "abcd =
     historyEnable
       (snd (add (snd (add (snd (add (snd (add (createSnowState 0 ''A'')
         ''A'' [])) ''B'' [])) ''C'' [])) ''D'' []))"

text \<open>\<open>abcd\<close> after \<open>historySetMaxSize(2)\<close>.\<close>

definition abcd_capped :: "('d, 'w) SnowState" where
  "abcd_capped = snd (historySetMaxSize abcd 2)"

text \<open>\<open>createSnowState("idle").eventSetDefaultMethod("draw", method)\<close>\<close>

definition drawer :: "('d, 'w) js_function \<Rightarrow> ('d, 'w) SnowState" where
  "drawer method = snd (eventSetDefaultMethod (createSnowState 0 ''idle'') ''draw'' method)"

text \<open>The instance after a call, and the world after a call.\<close>

definition machine_after :: "error option \<times> ('d, 'w) SnowState \<times> 'w \<Rightarrow> ('d, 'w) SnowState" where
  "machine_after result = fst (snd result)"

definition world_after :: "error option \<times> ('d, 'w) SnowState \<times> 'w \<Rightarrow> 'w" where
  "world_after result = snd (snd result)"

text \<open>
  A caller that makes the calls \<open>change(x)\<close> for the names of a list, one after the
  other, at the clock readings \<open>now\<close>, \<open>now + 1\<close>, ..., until one throws.
\<close>

fun changes ::
  "int \<Rightarrow> ('d, 'w) SnowState \<Rightarrow> 'w \<Rightarrow> string list
     \<Rightarrow> error option \<times> ('d, 'w) SnowState \<times> 'w" where
  "changes now m w [] = (None, m, w)"
| "changes now m w (x # xs) =
     (case change now m w x None None None of
        (None, m', w') \<Rightarrow> changes (now + 1) m' w' xs
      | (Some e, m', w') \<Rightarrow> (Some e, m', w'))"

subsection \<open>Lemmas on the loops of trigger\<close>

lemma fire_first_rejected:
  "all_rejected rs w \<Longrightarrow> fire_first now m data rs w = Inr (guards_world rs w)"
  by (induction rs arbitrary: w)
     (auto simp: guard_passes_def guard_world_def split: option.splits prod.splits if_splits)

lemma fire_first_append:
  "all_rejected pre w \<Longrightarrow>
   fire_first now m data (pre @ rs) w = fire_first now m data rs (guards_world pre w)"
  by (induction pre arbitrary: w)
     (auto simp: guard_passes_def guard_world_def split: option.splits prod.splits if_splits)

lemma fire_first_pass:
  "guard_passes r w \<Longrightarrow>
   fire_first now m data (r # post) w = Inl (fire now m data r (guard_world r w))"
  by (auto simp: guard_passes_def guard_world_def fire_def split: option.splits prod.splits)

lemma trigger_unfold:
  "trigger now m w T data =
     (case fire_first now m data (specific_records m T) w of
        Inl result \<Rightarrow> result
      | Inr w1 \<Rightarrow>
          (case fire_first now m data (wildcard_records m T) w1 of
             Inl result \<Rightarrow> result
           | Inr w2 \<Rightarrow> (None, m, w2)))"
  by (simp add: trigger_def specific_records_def wildcard_records_def
           split: option.splits sum.splits)

lemma guards_world_append:
  "guards_world (xs @ ys) w = guards_world ys (guards_world xs w)"
  by (induction xs arbitrary: w) auto

lemma all_rejected_append:
  "all_rejected (xs @ ys) w = (all_rejected xs w \<and> all_rejected ys (guards_world xs w))"
  by (induction xs arbitrary: w) auto

lemma trigger_specific:
  assumes "specific_records m T = pre @ r # post"
    and "all_rejected pre w"
    and "guard_passes r (guards_world pre w)"
  shows "trigger now m w T data = fire now m data r (guard_world r (guards_world pre w))"
proof -
  have "fire_first now m data (pre @ r # post) w =
          Inl (fire now m data r (guard_world r (guards_world pre w)))"
    using assms(2,3) by (simp only: fire_first_append fire_first_pass)
  then show ?thesis
    by (simp only: trigger_unfold assms(1) sum.case)
qed

lemma trigger_wildcard:
  assumes "all_rejected (specific_records m T) w"
    and "wildcard_records m T = pre @ r # post"
    and "all_rejected pre (guards_world (specific_records m T) w)"
    and "guard_passes r (guards_world (specific_records m T @ pre) w)"
  shows "trigger now m w T data =
           fire now m data r (guard_world r (guards_world (specific_records m T @ pre) w))"
proof -
  let ?w1 = "guards_world (specific_records m T) w"
  have specific: "fire_first now m data (specific_records m T) w = Inr ?w1"
    using assms(1) by (rule fire_first_rejected)
  have "guard_passes r (guards_world pre ?w1)"
    using assms(4) by (simp only: guards_world_append)
  with assms(3)
  have "fire_first now m data (pre @ r # post) ?w1 =
          Inl (fire now m data r (guard_world r (guards_world pre ?w1)))"
    by (simp only: fire_first_append fire_first_pass)
  then show ?thesis
    by (simp only: trigger_unfold specific assms(2) sum.case guards_world_append)
qed

subsection \<open>Evaluating the example machines\<close>

lemma walker_fields:
  "state walker = ''idle''"
  "stateObjects walker =
     [''idle'' \<mapsto> [(''leave'', logger ''idle.leave'')],
      ''walk'' \<mapsto> [(''enter'', logger ''walk.enter'')],
      ''run'' \<mapsto> [(''enter'', logger ''run.enter'')]]"
  "isHistoryEnabled walker = False"
  "ownMethods walker = {}"
  "stateTransitions walker = Map.empty"
  "wildcardTransitions walker = Map.empty"
  "previousState walker = None"
  by (simp_all add: walker_def add_def createSnowState_def checkForIllegalKeys_def
        has_own_property_def instance_fields_def this_truthy_def prototype_methods_def)

lemma walker_go_fields:
  "state (walker_go g1 g2 g3) = ''idle''"
  "stateObjects (walker_go g1 g2 g3) = stateObjects walker"
  "isHistoryEnabled (walker_go g1 g2 g3) = False"
  "specific_records (walker_go g1 g2 g3) ''go'' =
     [\<lparr>destState = ''walk'', condition = Some (logging_guard ''guard1'' g1),
        leaveFunc = None, enterFunc = None\<rparr>,
      \<lparr>destState = ''run'', condition = Some (logging_guard ''guard2'' g2),
        leaveFunc = None, enterFunc = None\<rparr>]"
  "wildcard_records (walker_go g1 g2 g3) ''go'' =
     [\<lparr>destState = ''run'', condition = Some (logging_guard ''guard3'' g3),
        leaveFunc = None, enterFunc = None\<rparr>]"
  by (simp_all add: walker_go_def addWildcardTransition_def addTransition_def
        SNOWSTATE_WILDCARD_TRANSITION_NAME_def walker_fields has_prop_def get_prop_def
        push_record_def specific_records_def wildcard_records_def)

lemma abcd_fields:
  "state (abcd :: ('d, 'w) SnowState) = ''A''"
  "stateObjects (abcd :: ('d, 'w) SnowState) =
     [''A'' \<mapsto> [], ''B'' \<mapsto> [], ''C'' \<mapsto> [], ''D'' \<mapsto> []]"
  "isHistoryEnabled (abcd :: ('d, 'w) SnowState) = True"
  "stateHistory (abcd :: ('d, 'w) SnowState) = []"
  "maxHistorySize (abcd :: ('d, 'w) SnowState) = 10"
  "previousState (abcd :: ('d, 'w) SnowState) = None"
  "ownMethods (abcd :: ('d, 'w) SnowState) = {}"
  by (simp_all add: abcd_def add_def historyEnable_def createSnowState_def
        checkForIllegalKeys_def)

subsection \<open>What change does, by cases\<close>

lemma change_unregistered:
  assumes "stateObjects m stateName = None" and "stateName \<notin> set object_prototype_keys"
  shows "change now m w stateName leaveF enterF data =
           (Some (SnowStateError (StateDoesNotExist stateName)), m, w)"
  using assms by (simp add: change_def has_prop_def get_prop_def)

lemma change_registered:
  assumes "stateObjects m (state m) = Some current" and "stateObjects m stateName = Some new"
  shows "change now m w stateName None None data =
           (None,
            (push_history (m\<lparr>previousState := Some (state m)\<rparr>))
              \<lparr>state := stateName, stateStartTime := now\<rparr>,
            (case map_of new ''enter'' of None \<Rightarrow> (\<lambda>w. w) | Some f \<Rightarrow> f None)
              ((case map_of current ''leave'' of None \<Rightarrow> (\<lambda>w. w) | Some f \<Rightarrow> f None) w))"
  using assms
  by (simp add: change_def has_prop_def get_prop_def invoke_phase_def invoke_default_def
        push_history_def Let_def split: option.splits)

lemma change_history:
  assumes "change now m w stateName leaveF enterF data = (None, m', w')"
  shows "stateHistory m' = stateHistory (push_history m)"
  using assms
  by (auto simp: change_def push_history_def Let_def split: if_splits sum.splits)

subsection \<open>Evaluating a sequence of changes\<close>

lemma abcd_capped_eq: "abcd_capped = abcd\<lparr>maxHistorySize := 2\<rparr>"
  by (simp add: abcd_capped_def historySetMaxSize_def abcd_fields)

lemma change_abcd:
  assumes "stateObjects m = [''A'' \<mapsto> [], ''B'' \<mapsto> [], ''C'' \<mapsto> [], ''D'' \<mapsto> []]"
    and "state m \<in> {''A'', ''B'', ''C'', ''D''}"
    and "stateName \<in> {''A'', ''B'', ''C'', ''D''}"
  shows "change now m w stateName None None data =
           (None,
            (push_history (m\<lparr>previousState := Some (state m)\<rparr>))
              \<lparr>state := stateName, stateStartTime := now\<rparr>,
            w)"
proof -
  obtain current where c: "stateObjects m (state m) = Some current" "current = []"
    using assms(1,2) by auto
  obtain new where n: "stateObjects m stateName = Some new" "new = []"
    using assms(1,3) by auto
  show ?thesis
    using change_registered [OF c(1) n(1)] c(2) n(2) by simp
qed

lemma changes_abcd_capped:
  "changes 1 abcd_capped w [''B'', ''C''] =
     (None,
      abcd_capped\<lparr>state := ''C'', previousState := Some ''B'',
                   stateHistory := [''A'', ''B''], stateStartTime := 2\<rparr>,
      w)"
  by (simp add: change_abcd abcd_capped_eq abcd_fields push_history_def)

lemma changes_abcd:
  "changes 1 abcd w [''B'', ''C'', ''D''] =
     (None,
      abcd\<lparr>state := ''D'', previousState := Some ''C'',
            stateHistory := [''A'', ''B'', ''C''], stateStartTime := 3\<rparr>,
      w)"
  by (simp add: change_abcd abcd_fields push_history_def)

lemma changes_abcd_capped_all:
  "changes 1 abcd_capped w [''B'', ''C'', ''D''] =
     (None,
      abcd_capped\<lparr>state := ''D'', previousState := Some ''C'',
                   stateHistory := [''B'', ''C''], stateStartTime := 3\<rparr>,
      w)"
  by (simp add: change_abcd abcd_capped_eq abcd_fields push_history_def)

subsection \<open>Which methods write the history\<close>

lemma stateHistory_addMethodToStateMachine:
  "stateHistory (addMethodToStateMachine m eventName) = stateHistory m"
  by (simp add: addMethodToStateMachine_def)

lemma stateHistory_install:
  "stateHistory
     (foldl (\<lambda>m' eventName.
               if \<not> this_truthy m' eventName
               then addMethodToStateMachine m' eventName else m') m eventNames) =
   stateHistory m"
  by (induction eventNames arbitrary: m)
     (simp_all add: stateHistory_addMethodToStateMachine)

lemma stateHistory_add: "stateHistory (snd (add m stateName stateObject)) = stateHistory m"
  by (simp add: add_def stateHistory_install split: option.splits)

lemma stateHistory_eventSetDefaultMethod:
  "stateHistory (snd (eventSetDefaultMethod m eventName method)) = stateHistory m"
  by (simp add: eventSetDefaultMethod_def stateHistory_addMethodToStateMachine
        split: option.splits)

lemma stateHistory_push_sources:
  "stateHistory (push_sources m transitionName r sources) = stateHistory m"
  by (induction sources arbitrary: m) simp_all

lemma stateHistory_addTransition:
  "stateHistory (snd (addTransition m transitionName sourceState dest cond leaveF enterF)) =
   stateHistory m"
  by (simp add: addTransition_def Let_def stateHistory_push_sources split: option.splits)

lemma stateHistory_historySetMaxSize:
  "set (stateHistory (snd (historySetMaxSize m n))) \<subseteq> set (stateHistory m)"
  by (auto simp: historySetMaxSize_def slice_from_end_def Let_def dest: in_set_dropD)

lemma push_history_recent:
  assumes "isHistoryEnabled m" and "int (length (stateHistory m)) \<le> maxHistorySize m"
  shows "stateHistory (push_history m) =
           slice_from_end (stateHistory m @ [state m]) (maxHistorySize m)"
proof (cases "int (length (stateHistory m)) + 1 > maxHistorySize m")
  case True
  let ?pushed = "stateHistory m @ [state m]"
  from True assms(2) have k: "nat (int (length ?pushed) - maxHistorySize m) = Suc 0"
    by simp
  have "slice_from_end ?pushed (maxHistorySize m) = drop (Suc 0) ?pushed"
    unfolding slice_from_end_def k ..
  also have "\<dots> = tl ?pushed"
    by (simp only: drop_Suc drop_0)
  finally show ?thesis
    using True assms(1) by (simp add: push_history_def Let_def)
next
  case False
  then have "nat (int (length (stateHistory m @ [state m])) - maxHistorySize m) = 0"
    by simp
  with False assms(1) show ?thesis
    by (simp add: push_history_def slice_from_end_def Let_def)
qed

subsection \<open>Registration and dispatch, by cases\<close>

lemma add_rejects_instance_field:
  assumes "key \<in> set (map fst stateObject)" and "key \<in> set instance_fields"
    and "key \<notin> addedEvents m"
  shows "\<exists>keys. add m stateName stateObject =
                  (Some (SnowStateError (CannotUseExistingName keys)), m) \<and> key \<in> set keys"
proof -
  define keys where
    "keys = filter (\<lambda>key. has_own_property m key \<and> key \<notin> addedEvents m)
              (map fst stateObject)"
  have member: "key \<in> set keys"
    unfolding keys_def using assms by (simp add: has_own_property_def)
  then have "length keys > 0"
    by (rule length_pos_if_in_set)
  then have "checkForIllegalKeys m (map fst stateObject) =
               Some (SnowStateError (CannotUseExistingName keys))"
    unfolding checkForIllegalKeys_def Let_def keys_def [symmetric] by simp
  then have "add m stateName stateObject =
               (Some (SnowStateError (CannotUseExistingName keys)), m)"
    by (simp add: add_def)
  with member show ?thesis
    by blast
qed

lemma dispatch_registered:
  assumes "stateObjects m (state m) = Some currentState"
    and "eventName \<notin> set object_prototype_keys"
  shows "dispatch m w eventName =
           (None,
            case map_of currentState eventName of
              Some stateMethod \<Rightarrow> stateMethod None w
            | None \<Rightarrow>
                (case defaultEventMethods m eventName of
                   Some method \<Rightarrow> method None w
                 | None \<Rightarrow> w))"
  using assms by (simp add: dispatch_def get_prop_def split: option.splits)

section \<open>The claims\<close>

text \<open>
  Each claim is stated before its theorem. For C2, C3, C4, C7 and C9 the theorem
  evaluates the code at an input on which it does not do what the claim and the
  documentation of the repository say.
\<close>

text \<open>
  C1. When the list declared for the current state and the name \<open>T\<close> holds a record
  whose guard is absent or returns true, \<open>trigger(T)\<close> is the \<open>change\<close> of the first
  such record, in insertion order: the result is fixed by the records before it (whose
  guards ran and rejected) and by the record itself, so no later record of the list and
  no wildcard record is looked at. The wildcard list for \<open>T\<close> is scanned, in insertion
  order and under the same guard policy, when the specific list is absent or all its
  guards reject.
\<close>

theorem trigger_specific_precedence:
  "(specific_records m T = pre @ r # post \<and> all_rejected pre w
      \<and> guard_passes r (guards_world pre w)
    \<longrightarrow> trigger now m w T data = fire now m data r (guard_world r (guards_world pre w)))
   \<and> (all_rejected (specific_records m T) w
        \<and> wildcard_records m T = wpre @ wr # wpost
        \<and> all_rejected wpre (guards_world (specific_records m T) w)
        \<and> guard_passes wr (guards_world (specific_records m T @ wpre) w)
      \<longrightarrow> trigger now m w T data =
            fire now m data wr
              (guard_world wr (guards_world (specific_records m T @ wpre) w)))"
proof (intro conjI impI)
  assume "specific_records m T = pre @ r # post \<and> all_rejected pre w
            \<and> guard_passes r (guards_world pre w)"
  then show "trigger now m w T data =
               fire now m data r (guard_world r (guards_world pre w))"
    by (intro trigger_specific [where post = post]) simp_all
next
  assume "all_rejected (specific_records m T) w
            \<and> wildcard_records m T = wpre @ wr # wpost
            \<and> all_rejected wpre (guards_world (specific_records m T) w)
            \<and> guard_passes wr (guards_world (specific_records m T @ wpre) w)"
  then show "trigger now m w T data =
               fire now m data wr
                 (guard_world wr (guards_world (specific_records m T @ wpre) w))"
    by (intro trigger_wildcard [where post = wpost]) simp_all
qed

theorem trigger_specific_precedence_witness:
  "specific_records (walker_go True True True) ''go'' =
     [] @ \<lparr>destState = ''walk'', condition = Some (logging_guard ''guard1'' True),
             leaveFunc = None, enterFunc = None\<rparr>
        # [\<lparr>destState = ''run'', condition = Some (logging_guard ''guard2'' True),
             leaveFunc = None, enterFunc = None\<rparr>]
   \<and> wildcard_records (walker_go True True True) ''go'' =
     [\<lparr>destState = ''run'', condition = Some (logging_guard ''guard3'' True),
        leaveFunc = None, enterFunc = None\<rparr>]
   \<and> trigger 5 (walker_go True True True) [] ''go'' (Some 7) =
     (None,
      (walker_go True True True)
        \<lparr>state := ''walk'', previousState := Some ''idle'', stateStartTime := 5\<rparr>,
      [(''guard1'', None), (''idle.leave'', None), (''walk.enter'', None)])"
proof -
  let ?r1 = "\<lparr>destState = ''walk'', condition = Some (logging_guard ''guard1'' True),
               leaveFunc = None, enterFunc = None\<rparr>
             :: (nat, (string \<times> nat option) list) TransitionRecord"
  let ?r2 = "\<lparr>destState = ''run'', condition = Some (logging_guard ''guard2'' True),
               leaveFunc = None, enterFunc = None\<rparr>"
  let ?pre = "[] :: (nat, (string \<times> nat option) list) TransitionRecord list"
  have inst:
    "specific_records (walker_go True True True) ''go'' = ?pre @ ?r1 # [?r2]
       \<and> all_rejected ?pre []
       \<and> guard_passes ?r1 (guards_world ?pre [])"
    by (simp add: walker_go_fields guard_passes_def logging_guard_def)
  have "trigger 5 (walker_go True True True) [] ''go'' (Some 7) =
          fire 5 (walker_go True True True) (Some 7) ?r1 (guard_world ?r1 (guards_world ?pre []))"
    by (rule mp [OF conjunct1 [OF trigger_specific_precedence] inst])
  then show ?thesis
    by (simp add: walker_go_fields walker_fields fire_def guard_world_def logging_guard_def
          SNOWSTATE_REFLEXIVE_TRANSITION_NAME_def change_def has_prop_def get_prop_def
          invoke_phase_def invoke_default_def push_history_def logger_def)
qed

text \<open>
  C2. \<open>toString\<close> is not a registered state of \<open>walker\<close>, and \<open>change("toString")\<close>
  does not throw: \<open>"toString" in this.stateObjects\<close> holds through the prototype chain.
  The call runs the leave callback of \<open>idle\<close> and writes the current state, the
  previous state and the timestamp.
\<close>

theorem change_to_inherited_name:
  "stateObjects walker ''toString'' = None
   \<and> change 1 walker [] ''toString'' None None None =
       (None,
        walker\<lparr>state := ''toString'', previousState := Some ''idle'', stateStartTime := 1\<rparr>,
        [(''idle.leave'', None)])"
  by (simp add: walker_fields change_def has_prop_def get_prop_def object_prototype_keys_def
        invoke_phase_def invoke_default_def push_history_def logger_def)

text \<open>
  C3. \<open>change("walk", undefined, undefined, 7)\<close> calls the registered leave callback of
  \<open>idle\<close> and the registered enter callback of \<open>walk\<close> with no argument: they receive
  \<open>undefined\<close>, not \<open>7\<close>. Overrides receive \<open>7\<close>, and so does the registered leave
  callback when it is called through the method \<open>leave(7)\<close>.
\<close>

theorem change_drops_data_for_registered_callbacks:
  "world_after (change 1 walker [] ''walk'' None None (Some 7)) =
     [(''idle.leave'', None), (''walk.enter'', None)]
   \<and> world_after (change 1 walker [] ''walk''
                    (Some (logger ''leaveFunc'')) (Some (logger ''enterFunc'')) (Some 7)) =
     [(''leaveFunc'', Some 7), (''enterFunc'', Some 7)]
   \<and> leave walker [] (Some 7) = (None, [(''idle.leave'', Some 7)])"
  by (simp add: walker_fields change_def has_prop_def get_prop_def world_after_def
        invoke_phase_def invoke_default_def push_history_def logger_def
        leave_def invoke_current_def)

text \<open>
  C4. An instance has no property \<open>on\<close>, so no listener can be registered, and a
  successful \<open>change\<close> runs the leave callback and the enter callback and nothing else:
  on \<open>abcd\<close>, whose states have no callbacks, it leaves every world as it was.
\<close>

theorem change_notifies_nobody:
  "\<not> this_truthy (createSnowState now initialState) ''on''
   \<and> \<not> has_own_property (createSnowState now initialState) ''on''
   \<and> change 1 abcd w ''B'' None None data =
       (None,
        abcd\<lparr>state := ''B'', previousState := Some ''A'', stateHistory := [''A''],
              stateStartTime := 1\<rparr>,
        w)
   \<and> world_after (change 1 walker [] ''walk'' None None (Some 7)) =
       [(''idle.leave'', None), (''walk.enter'', None)]"
  by (simp add: this_truthy_def has_own_property_def instance_fields_def prototype_methods_def
        object_prototype_keys_def createSnowState_def change_abcd abcd_fields
        push_history_def walker_fields change_def has_prop_def get_prop_def world_after_def
        invoke_phase_def invoke_default_def logger_def)

text \<open>
  C5. A machine starts with an empty history, and \<open>add\<close>, \<open>eventSetDefaultMethod\<close>,
  \<open>addTransition\<close>, \<open>historyEnable\<close> and \<open>historySetMaxSize\<close> add no entry to it. With
  history tracking enabled, a \<open>change\<close> that returns appends the state it leaves (the
  source, not the destination) and, when the buffer then exceeds the maximum size, drops
  the oldest entry from the front: a buffer within the maximum size becomes the most
  recent entries of the appended sequence, up to that size. With maximum size 2, the
  changes from A to B, C and D end with the history B, C.
\<close>

theorem change_appends_source_to_history:
  "stateHistory (createSnowState t0 s0 :: ('d, 'w) SnowState) = []
   \<and> stateHistory (snd (add m0 name0 stateObject)) = stateHistory m0
   \<and> stateHistory (snd (eventSetDefaultMethod m0 eventName defaultMethod)) = stateHistory m0
   \<and> stateHistory (snd (addTransition m0 transitionName sourceState dest cond lf ef)) =
       stateHistory m0
   \<and> stateHistory (historyEnable m0) = stateHistory m0
   \<and> set (stateHistory (snd (historySetMaxSize m0 n))) \<subseteq> set (stateHistory m0)
   \<and> (isHistoryEnabled m \<and> change now m w stateName leaveF enterF data = (None, m', w')
      \<longrightarrow> stateHistory m' =
            (if int (length (stateHistory m)) + 1 > maxHistorySize m
             then tl (stateHistory m @ [state m])
             else stateHistory m @ [state m])
          \<and> (int (length (stateHistory m)) \<le> maxHistorySize m
               \<longrightarrow> stateHistory m' =
                     slice_from_end (stateHistory m @ [state m]) (maxHistorySize m)
                   \<and> int (length (stateHistory m')) \<le> maxHistorySize m))
   \<and> historyGet (machine_after (changes 1 (abcd_capped :: (nat, unit) SnowState) ()
                                   [''B'', ''C'', ''D''])) = [''B'', ''C'']"
proof -
  have step: "stateHistory m' =
            (if int (length (stateHistory m)) + 1 > maxHistorySize m
             then tl (stateHistory m @ [state m])
             else stateHistory m @ [state m])
          \<and> (int (length (stateHistory m)) \<le> maxHistorySize m
               \<longrightarrow> stateHistory m' =
                     slice_from_end (stateHistory m @ [state m]) (maxHistorySize m)
                   \<and> int (length (stateHistory m')) \<le> maxHistorySize m)"
    if h: "isHistoryEnabled m \<and> change now m w stateName leaveF enterF data = (None, m', w')"
  proof -
    have eq: "stateHistory m' = stateHistory (push_history m)"
      using h change_history [of now m w stateName leaveF enterF data m' w'] by simp
    have literal: "stateHistory m' =
            (if int (length (stateHistory m)) + 1 > maxHistorySize m
             then tl (stateHistory m @ [state m])
             else stateHistory m @ [state m])"
      using h eq by (simp add: push_history_def Let_def)
    have recent: "stateHistory m' =
                    slice_from_end (stateHistory m @ [state m]) (maxHistorySize m)"
      if "int (length (stateHistory m)) \<le> maxHistorySize m"
      using h eq that push_history_recent [of m] by simp
    have bound: "int (length (stateHistory m')) \<le> maxHistorySize m"
      if "int (length (stateHistory m)) \<le> maxHistorySize m"
      using that literal by (simp split: if_splits)
    from literal recent bound show ?thesis
      by blast
  qed
  have example: "historyGet (machine_after (changes 1 (abcd_capped :: (nat, unit) SnowState) ()
                                   [''B'', ''C'', ''D''])) = [''B'', ''C'']"
    by (simp only: changes_abcd_capped_all machine_after_def historyGet_def fst_conv snd_conv)
       simp
  have fresh: "stateHistory (createSnowState t0 s0 :: ('d, 'w) SnowState) = []"
    by (simp add: createSnowState_def)
  have enable: "stateHistory (historyEnable m0) = stateHistory m0"
    by (simp add: historyEnable_def)
  from fresh enable step example show ?thesis
    using stateHistory_add [of m0 name0 stateObject]
      stateHistory_eventSetDefaultMethod [of m0 eventName defaultMethod]
      stateHistory_addTransition [of m0 transitionName sourceState dest cond lf ef]
      stateHistory_historySetMaxSize [of m0 n]
    by blast
qed

theorem change_appends_source_to_history_witness:
  "isHistoryEnabled (machine_after (changes 1 (abcd_capped :: (nat, unit) SnowState) ()
                                      [''B'', ''C'']))
   \<and> historyGet (machine_after (changes 1 (abcd_capped :: (nat, unit) SnowState) ()
                                   [''B'', ''C''])) = [''A'', ''B'']
   \<and> historyGetMaxSize (machine_after (changes 1 (abcd_capped :: (nat, unit) SnowState) ()
                                          [''B'', ''C''])) = 2
   \<and> getCurrentState (machine_after (changes 1 (abcd_capped :: (nat, unit) SnowState) ()
                                        [''B'', ''C''])) = ''C''
   \<and> fst (change 3 (machine_after (changes 1 (abcd_capped :: (nat, unit) SnowState) ()
                                       [''B'', ''C'']))
             () ''D'' None None None) = None
   \<and> historyGet (machine_after
                   (change 3 (machine_after (changes 1 (abcd_capped :: (nat, unit) SnowState)
                                               () [''B'', ''C'']))
                      () ''D'' None None None)) = [''B'', ''C'']"
proof -
  let ?m2 = "abcd_capped\<lparr>state := ''C'', previousState := Some ''B'',
                          stateHistory := [''A'', ''B''], stateStartTime := 2\<rparr>
             :: (nat, unit) SnowState"
  let ?m3 = "(push_history (?m2\<lparr>previousState := Some (state ?m2)\<rparr>))
               \<lparr>state := ''D'', stateStartTime := 3\<rparr>"
  have m2: "machine_after (changes 1 (abcd_capped :: (nat, unit) SnowState) ()
                             [''B'', ''C'']) = ?m2"
    by (simp only: changes_abcd_capped machine_after_def fst_conv snd_conv)
  have step: "change 3 ?m2 () ''D'' None None None = (None, ?m3, ())"
    by (rule change_abcd) (simp_all add: abcd_capped_eq abcd_fields)
  have enabled: "isHistoryEnabled ?m2"
    by (simp add: abcd_capped_eq abcd_fields)
  have "stateHistory ?m3 =
          (if int (length (stateHistory ?m2)) + 1 > maxHistorySize ?m2
           then tl (stateHistory ?m2 @ [state ?m2])
           else stateHistory ?m2 @ [state ?m2])"
    using change_appends_source_to_history
            [where m = ?m2 and m' = ?m3 and now = 3 and w = "()" and w' = "()"
               and stateName = "''D''" and leaveF = None and enterF = None and data = None]
          step enabled
    by blast
  then have "stateHistory ?m3 = [''B'', ''C'']"
    by (simp add: abcd_capped_eq)
  then show ?thesis
    unfolding m2 step
    by (simp add: machine_after_def historyGet_def historyGetMaxSize_def
          getCurrentState_def abcd_capped_eq abcd_fields)
qed

text \<open>
  C6. When every guard of the specific list and of the wildcard list for \<open>T\<close> rejects
  (both lists may be absent or empty), \<open>trigger(T)\<close> returns without an error and
  leaves the instance as it was: the current state, the previous state, the history and
  the timestamp are unchanged. Only the guards have run, so no leave or enter callback
  was invoked.
\<close>

theorem trigger_no_match:
  "all_rejected (specific_records m T @ wildcard_records m T) w \<Longrightarrow>
   trigger now m w T data =
     (None, m, guards_world (specific_records m T @ wildcard_records m T) w)"
  by (simp add: trigger_unfold all_rejected_append guards_world_append fire_first_rejected)

theorem trigger_no_match_witness:
  "all_rejected (specific_records (walker_go False False False) ''go''
                   @ wildcard_records (walker_go False False False) ''go'') []
   \<and> trigger 5 (walker_go False False False) [] ''go'' (Some 7) =
       (None, walker_go False False False,
        [(''guard1'', None), (''guard2'', None), (''guard3'', None)])
   \<and> all_rejected (specific_records walker ''go'' @ wildcard_records walker ''go'') []
   \<and> trigger 5 walker [] ''go'' (Some 7) = (None, walker, [])"
proof -
  have go: "specific_records (walker_go False False False) ''go''
              @ wildcard_records (walker_go False False False) ''go'' =
            [\<lparr>destState = ''walk'', condition = Some (logging_guard ''guard1'' False),
               leaveFunc = None, enterFunc = None\<rparr>,
             \<lparr>destState = ''run'', condition = Some (logging_guard ''guard2'' False),
               leaveFunc = None, enterFunc = None\<rparr>,
             \<lparr>destState = ''run'', condition = Some (logging_guard ''guard3'' False),
               leaveFunc = None, enterFunc = None\<rparr>]"
    by (simp add: walker_go_fields)
  have none: "specific_records walker ''go'' @ wildcard_records walker ''go'' = []"
    by (simp add: specific_records_def wildcard_records_def walker_fields)
  have a: "all_rejected (specific_records (walker_go False False False) ''go''
                   @ wildcard_records (walker_go False False False) ''go'') []"
    unfolding go by (simp add: guard_passes_def guard_world_def logging_guard_def)
  have b: "all_rejected (specific_records walker ''go'' @ wildcard_records walker ''go'') []"
    unfolding none by simp
  have "trigger 5 (walker_go False False False) [] ''go'' (Some 7) =
          (None, walker_go False False False,
           [(''guard1'', None), (''guard2'', None), (''guard3'', None)])"
    using trigger_no_match [OF a, of 5 "Some 7"] unfolding go
    by (simp add: guard_world_def logging_guard_def)
  moreover have "trigger 5 walker [] ''go'' (Some 7) = (None, walker, [])"
    using trigger_no_match [OF b, of 5 "Some 7"] unfolding none by simp
  ultimately show ?thesis
    using a b by blast
qed

text \<open>
  C7. \<open>add("idle", {change: f})\<close> and \<open>eventSetDefaultMethod("trigger", f)\<close> on a new
  instance do not throw and register what they were given: \<open>change\<close> and \<open>trigger\<close>
  are methods of the prototype, which \<open>Object.getOwnPropertyDescriptor(this, key)\<close>
  does not see.
\<close>

theorem add_accepts_method_names:
  "add (createSnowState 0 ''idle'') ''idle'' [(''change'', f)] =
     (None, (createSnowState 0 ''idle'')\<lparr>stateObjects := [''idle'' \<mapsto> [(''change'', f)]]\<rparr>)
   \<and> eventSetDefaultMethod (createSnowState 0 ''idle'') ''trigger'' f =
     (None, (createSnowState 0 ''idle'')\<lparr>defaultEventMethods := [''trigger'' \<mapsto> f]\<rparr>)"
  by (simp add: add_def eventSetDefaultMethod_def checkForIllegalKeys_def
        has_own_property_def instance_fields_def createSnowState_def this_truthy_def
        prototype_methods_def addMethodToStateMachine_def)

text \<open>
  C8. \<open>historySetMaxSize(n)\<close> with \<open>n < 1\<close> throws and leaves the instance, so the
  buffer and the cap, as it was. With \<open>n \<ge> 1\<close> it returns, the cap is \<open>n\<close> and the
  buffer keeps its most recent \<open>n\<close> entries (all of them when it holds no more than
  \<open>n\<close>); nothing else changes.
\<close>

theorem historySetMaxSize_spec:
  "(n < 1 \<longrightarrow> historySetMaxSize m n = (Some (SnowStateError HistorySizeAtLeastOne), m))
   \<and> (1 \<le> n \<longrightarrow>
        historySetMaxSize m n =
          (None,
           m\<lparr>maxHistorySize := n,
             stateHistory := drop (length (stateHistory m) - nat n) (stateHistory m)\<rparr>))"
proof (intro conjI impI)
  assume "n < 1"
  then show "historySetMaxSize m n = (Some (SnowStateError HistorySizeAtLeastOne), m)"
    by (simp add: historySetMaxSize_def)
next
  assume n: "1 \<le> n"
  show "historySetMaxSize m n =
          (None,
           m\<lparr>maxHistorySize := n,
             stateHistory := drop (length (stateHistory m) - nat n) (stateHistory m)\<rparr>)"
  proof (cases "int (length (stateHistory m)) > n")
    case True
    with n have "nat (int (length (stateHistory m)) - n) = length (stateHistory m) - nat n"
      by linarith
    with True n show ?thesis
      by (simp add: historySetMaxSize_def slice_from_end_def)
  next
    case False
    with n have "length (stateHistory m) - nat n = 0"
      by linarith
    with False n show ?thesis
      by (simp add: historySetMaxSize_def)
  qed
qed

theorem historySetMaxSize_spec_witness:
  "historyGet (machine_after (changes 1 (abcd :: (nat, unit) SnowState) ()
                                [''B'', ''C'', ''D''])) = [''A'', ''B'', ''C'']
   \<and> historyGetMaxSize (machine_after (changes 1 (abcd :: (nat, unit) SnowState) ()
                                          [''B'', ''C'', ''D''])) = 10
   \<and> historySetMaxSize (machine_after (changes 1 (abcd :: (nat, unit) SnowState) ()
                                          [''B'', ''C'', ''D''])) 0 =
       (Some (SnowStateError HistorySizeAtLeastOne),
        machine_after (changes 1 abcd () [''B'', ''C'', ''D'']))
   \<and> historySetMaxSize (machine_after (changes 1 (abcd :: (nat, unit) SnowState) ()
                                          [''B'', ''C'', ''D''])) 2 =
       (None,
        (machine_after (changes 1 abcd () [''B'', ''C'', ''D'']))
          \<lparr>maxHistorySize := 2, stateHistory := [''B'', ''C'']\<rparr>)"
  using historySetMaxSize_spec
          [of 0 "machine_after (changes 1 (abcd :: (nat, unit) SnowState) ()
                                  [''B'', ''C'', ''D''])"]
        historySetMaxSize_spec
          [of 2 "machine_after (changes 1 (abcd :: (nat, unit) SnowState) ()
                                  [''B'', ''C'', ''D''])"]
  by (simp add: changes_abcd machine_after_def historyGet_def historyGetMaxSize_def
        abcd_fields del: changes.simps)

text \<open>
  C9. After \<open>createSnowState("idle").eventSetDefaultMethod("draw", method)\<close> the event
  \<open>draw\<close> is installed and has a default method, and the state \<open>idle\<close> is not
  registered. Calling \<open>draw()\<close> throws a \<open>TypeError\<close> and does not run the default.
\<close>

theorem dispatch_throws_on_unregistered_state:
  "''draw'' \<in> ownMethods (drawer method)
   \<and> defaultEventMethods (drawer method) ''draw'' = Some method
   \<and> stateObjects (drawer method) (state (drawer method)) = None
   \<and> dispatch (drawer method) w ''draw'' = (Some TypeError, w)"
  by (simp add: drawer_def eventSetDefaultMethod_def checkForIllegalKeys_def
        has_own_property_def instance_fields_def createSnowState_def this_truthy_def
        prototype_methods_def object_prototype_keys_def addMethodToStateMachine_def
        dispatch_def get_prop_def)

text \<open>
  C10. \<open>stateIs(a, b)\<close> is true exactly when \<open>a\<close> is the current state, whatever the
  second argument is: the implementation declares no second parameter.
\<close>

theorem stateIs_ignores_stateToCheck:
  "stateIs_call m a b = (a = getCurrentState m)"
  by (simp add: stateIs_call_def stateIs_def getCurrentState_def)

end
